theory Spec2Isabelle
  imports Complex_Main
begin

section \<open>Strings and errors\<close>

text \<open>
  Python strings are modelled as \<open>string\<close> (a list of 8-bit characters), which is
  faithful for ASCII text: there a character is one byte, and \<open>str.upper\<close> and
  \<open>str.lower\<close> change the letters a-z and A-Z only. \<open>upper_char\<close> and \<open>lower_char\<close>
  are \<open>str.upper\<close> and \<open>str.lower\<close> on one ASCII character. On a character above 127
  they are the identity, which is not what Python does on a non-ASCII letter; a statement
  about the case of the characters of a symbol therefore has the hypothesis that the symbol
  is ASCII.
\<close>

definition upper_char :: "char \<Rightarrow> char" where
  "upper_char c =
     (let n = (of_char c :: nat) in if 97 \<le> n \<and> n \<le> 122 then char_of (n - 32) else c)"

definition lower_char :: "char \<Rightarrow> char" where
  "lower_char c =
     (let n = (of_char c :: nat) in if 65 \<le> n \<and> n \<le> 90 then char_of (n + 32) else c)"

text \<open>
  Every way the functions below can raise. \<open>ElementNotFound s\<close> is the exception of the
  periodic table's \<open>GetAtomicNumber\<close> on the symbol \<open>s\<close>; \<open>ProgrammingBug\<close> is the
  \<open>RuntimeError("programming bug, please post full error on github")\<close> of
  \<open>_aux_altloc_mol_build\<close>; \<open>ConnectivityError\<close> and \<open>SanitizeError\<close> are an exception
  of \<open>rdDetermineBonds.DetermineConnectivity\<close> and of \<open>Chem.SanitizeMol\<close>.
\<close>

datatype error = ElementNotFound string | ProgrammingBug | ConnectivityError | SanitizeError

section \<open>AtomField\<close>

text \<open>
  The class \<open>AtomField\<close>. The fields \<open>chain\<close>, \<open>x\<close>, \<open>y\<close> and \<open>z\<close> carry a suffix
  here. The coordinates are Python floats that the code copies and never computes with;
  they are modelled as \<open>real\<close>.
\<close>

record AtomField =
  atomname :: string
  altloc :: string
  resname :: string
  chain_id :: string
  resnum :: int
  icode :: string
  x_coord :: real
  y_coord :: real
  z_coord :: real
  atomic_nr :: int

text \<open>
  Lines 187-190 of \<open>AtomField.__init__\<close>: the element symbol as it is handed to the
  periodic table.
\<close>

definition normalize_element :: "string \<Rightarrow> string" where
  "normalize_element element =
     (if length element > 1 then [upper_char (element ! 0), lower_char (element ! 1)]
      else map upper_char element)"

text \<open>
  \<open>AtomField.__init__\<close>. The periodic table is RDKit's; its \<open>GetAtomicNumber\<close> is the
  parameter \<open>GetAtomicNumber\<close>, which gives \<open>None\<close> where RDKit raises (a symbol it does
  not know). The constructor has no handler, so the exception leaves it and no object exists.
\<close>

definition AtomField_init ::
  "(string \<Rightarrow> int option) \<Rightarrow> string \<Rightarrow> string \<Rightarrow> string \<Rightarrow> string \<Rightarrow> int \<Rightarrow> string \<Rightarrow>
     real \<Rightarrow> real \<Rightarrow> real \<Rightarrow> string \<Rightarrow> error + AtomField" where
  "AtomField_init GetAtomicNumber atomname' altloc' resname' chain' resnum' icode' x' y' z' element =
     (let element' = normalize_element element in
      case GetAtomicNumber element' of
        None \<Rightarrow> Inl (ElementNotFound element')
      | Some n \<Rightarrow>
          Inr \<lparr>atomname = atomname', altloc = altloc', resname = resname', chain_id = chain',
               resnum = resnum', icode = icode', x_coord = x', y_coord = y', z_coord = z',
               atomic_nr = n\<rparr>)"

section \<open>The RDKit molecule\<close>

text \<open>
  The part of an RDKit molecule that the code reads or writes: the atoms in the order they
  were added, each with its atomic number, formal charge and PDB residue information; the
  bonds as pairs of atom indices; the conformers, each a list of positions.
\<close>

type_synonym Point3D = "real \<times> real \<times> real"

record AtomPDBResidueInfo =
  Name :: string
  ResidueName :: string
  ResidueNumber :: int
  ChainId :: string
  InsertionCode :: string

record Atom =
  AtomicNum :: int
  FormalCharge :: int
  PDBResidueInfo :: AtomPDBResidueInfo

record Mol =
  atoms :: "Atom list"
  bonds :: "(nat \<times> nat) list"
  conformers :: "Point3D list list"

text \<open>\<open>atom.GetNeighbors()\<close>: the other end of every bond that has the atom at one end.\<close>

definition GetNeighbors :: "Mol \<Rightarrow> nat \<Rightarrow> nat list" where
  "GetNeighbors m i =
     map (\<lambda>(b, e). if b = i then e else b) (filter (\<lambda>(b, e). b = i \<or> e = i) (bonds m))"

section \<open>GraphBuilder: \<open>_build_rdkit_mol_for_altloc\<close>\<close>

text \<open>Lines 204-212: the atom made for one record; \<open>Chem.Atom(n)\<close> has formal charge 0.\<close>

definition rdkit_atom_of :: "AtomField \<Rightarrow> Atom" where
  "rdkit_atom_of atom =
     \<lparr>AtomicNum = atomic_nr atom, FormalCharge = 0,
      PDBResidueInfo = \<lparr>Name = atomname atom, ResidueName = resname atom,
        ResidueNumber = resnum atom, ChainId = chain_id atom, InsertionCode = icode atom\<rparr>\<rparr>"

definition position_of :: "AtomField \<Rightarrow> Point3D" where
  "position_of atom = (x_coord atom, y_coord atom, z_coord atom)"

text \<open>
  Lines 200-203: the test that reaches \<open>continue\<close>. A \<open>wanted_altloc\<close> of \<open>None\<close> skips
  no record.
\<close>

definition skipped :: "string option \<Rightarrow> AtomField \<Rightarrow> bool" where
  "skipped wanted_altloc atom =
     (case wanted_altloc of
        None \<Rightarrow> False
      | Some w \<Rightarrow> altloc atom \<noteq> [] \<and> altloc atom \<noteq> w)"

text \<open>
  The loop of lines 199-214 over \<open>enumerate(atom_fields_list)\<close>. The state is the atoms
  of the editable molecule, \<open>positions\<close> and \<open>idx_to_rdkit\<close>; \<open>mol.AddAtom\<close> returns the
  index of the atom it adds, which is the number of atoms before.
\<close>

fun build_loop ::
  "string option \<Rightarrow> (nat \<times> AtomField) list \<Rightarrow> Atom list \<times> Point3D list \<times> (nat \<rightharpoonup> nat) \<Rightarrow>
     Atom list \<times> Point3D list \<times> (nat \<rightharpoonup> nat)" where
  "build_loop wanted_altloc [] st = st"
| "build_loop wanted_altloc ((index_list, atom) # rest) (mol_atoms, positions, idx_to_rdkit) =
     (if skipped wanted_altloc atom
      then build_loop wanted_altloc rest (mol_atoms, positions, idx_to_rdkit)
      else build_loop wanted_altloc rest
             (mol_atoms @ [rdkit_atom_of atom], positions @ [position_of atom],
              idx_to_rdkit(index_list \<mapsto> length mol_atoms)))"

text \<open>
  \<open>conformer.SetAtomPosition\<close>: RDKit grows the conformer with zero positions when the
  index is beyond its end.
\<close>

definition SetAtomPosition :: "Point3D list \<Rightarrow> nat \<Rightarrow> Point3D \<Rightarrow> Point3D list" where
  "SetAtomPosition conformer i p =
     (if i < length conformer then conformer[i := p]
      else conformer @ replicate (i - length conformer) (0, 0, 0) @ [p])"

text \<open>The loop of lines 218-219 over \<open>enumerate(positions)\<close>.\<close>

fun set_positions :: "(nat \<times> Point3D) list \<Rightarrow> Point3D list \<Rightarrow> Point3D list" where
  "set_positions [] conformer = conformer"
| "set_positions ((index, position) # rest) conformer =
     set_positions rest (SetAtomPosition conformer index position)"

definition build_rdkit_mol_for_altloc ::
  "AtomField list \<Rightarrow> string option \<Rightarrow> Mol \<times> (nat \<rightharpoonup> nat)" where
  "build_rdkit_mol_for_altloc atom_fields_list wanted_altloc =
     (case build_loop wanted_altloc (enumerate 0 atom_fields_list) ([], [], Map.empty) of
        (mol_atoms, positions, idx_to_rdkit) \<Rightarrow>
          (let mol = \<lparr>atoms = mol_atoms, bonds = [], conformers = []\<rparr>;
               conformer = replicate (length (atoms mol)) (0, 0, 0);
               conformer = set_positions (enumerate 0 positions) conformer
           in (mol\<lparr>conformers := conformers mol @ [conformer]\<rparr>, idx_to_rdkit)))"

section \<open>AltlocPartitioner: \<open>build_one_rdkit_mol_per_altloc\<close>\<close>

text \<open>
  The dictionary is a map whose keys are \<open>string option\<close>: \<open>None\<close> is Python's \<open>None\<close>,
  the key of the molecule built when no record has an altloc. The set \<open>altlocs\<close> is the
  list of the distinct non-empty tags; the dictionary the loop builds does not depend on
  the order in which Python goes through the set, since each key is stored once.
\<close>

definition build_one_rdkit_mol_per_altloc ::
  "AtomField list \<Rightarrow> (string option \<rightharpoonup> Mol \<times> (nat \<rightharpoonup> nat))" where
  "build_one_rdkit_mol_per_altloc atom_fields_list =
     (let altlocs = remdups (map altloc (filter (\<lambda>atom. altloc atom \<noteq> []) atom_fields_list));
          altlocs = (if altlocs = [] then [None] else map Some altlocs)
      in fold (\<lambda>altloc' rdkit_mol_dict.
                 rdkit_mol_dict(altloc' \<mapsto> build_rdkit_mol_for_altloc atom_fields_list altloc'))
           altlocs Map.empty)"

section \<open>AltlocResolver and ConnectivityFinalizer: \<open>_aux_altloc_mol_build\<close>\<close>

text \<open>Python's truth value of an optional string: \<open>None\<close> and the empty string are false.\<close>

definition truthy :: "string option \<Rightarrow> bool" where
  "truthy s = (case s of None \<Rightarrow> False | Some t \<Rightarrow> t \<noteq> [])"

text \<open>
  The loop of lines 268-270: in the order of the atoms, an atom with atomic number 7 and
  four neighbours gets formal charge 1.
\<close>

definition charge_step :: "nat \<Rightarrow> Mol \<Rightarrow> Mol" where
  "charge_step i m =
     (if AtomicNum (atoms m ! i) = 7 \<and> length (GetNeighbors m i) = 4
      then m\<lparr>atoms := (atoms m)[i := (atoms m ! i)\<lparr>FormalCharge := 1\<rparr>]\<rparr>
      else m)"

definition charge_loop :: "Mol \<Rightarrow> Mol" where
  "charge_loop m = fold charge_step [0..<length (atoms m)] m"

text \<open>
  \<open>_aux_altloc_mol_build\<close>. \<open>DetermineConnectivity\<close> and \<open>SanitizeMol\<close> are RDKit's; they
  change the molecule in place or raise, and are parameters that give the molecule after
  the call, or \<open>None\<close> where RDKit raises. The flags start false; line 252 assigns to a
  new name \<open>needed_altoc\<close>, which changes no flag. A molecule taken from the dictionary
  is never \<open>None\<close>, so \<open>pdbmol is None\<close> holds on the three branches that set it so. The
  result is \<open>(pdbmol, idx_to_rdkit, missed_altloc, needed_altloc)\<close>.
\<close>

definition aux_altloc_mol_build ::
  "(Mol \<Rightarrow> Mol option) \<Rightarrow> (Mol \<Rightarrow> Mol option) \<Rightarrow> AtomField list \<Rightarrow> string option \<Rightarrow>
     string option \<Rightarrow> error + (Mol option \<times> (nat \<rightharpoonup> nat) option \<times> bool \<times> bool)" where
  "aux_altloc_mol_build DetermineConnectivity SanitizeMol atom_field_list requested_altloc
       allowed_altloc =
     (let mols_dict = build_one_rdkit_mol_per_altloc atom_field_list;
          has_altloc = (mols_dict None = None);
          selected =
            (if has_altloc \<and> requested_altloc = None \<and> allowed_altloc = None
             then Inr (None, False, True)
             else if truthy requested_altloc \<and> mols_dict requested_altloc \<noteq> None
             then Inr (mols_dict requested_altloc, False, False)
             else if truthy requested_altloc \<and> mols_dict requested_altloc = None
             then Inr (None, True, False)
             else if truthy allowed_altloc \<and> mols_dict allowed_altloc \<noteq> None
             then Inr (mols_dict allowed_altloc, False, False)
             else if has_altloc \<and> mols_dict allowed_altloc = None
             then Inr (None, False, True)
             else if \<not> has_altloc \<and> requested_altloc = None
             then Inr (mols_dict None, False, False)
             else Inl ProgrammingBug)
      in case selected of
           Inl e \<Rightarrow> Inl e
         | Inr (None, missed_altloc, needed_altloc) \<Rightarrow>
             Inr (None, None, missed_altloc, needed_altloc)
         | Inr (Some (pdbmol, idx_to_rdkit), missed_altloc, needed_altloc) \<Rightarrow>
             (case DetermineConnectivity pdbmol of
                None \<Rightarrow> Inl ConnectivityError
              | Some pdbmol1 \<Rightarrow>
                  (case SanitizeMol (charge_loop pdbmol1) of
                     None \<Rightarrow> Inl SanitizeError
                   | Some pdbmol2 \<Rightarrow>
                       Inr (Some pdbmol2, Some idx_to_rdkit, missed_altloc, needed_altloc))))"

section \<open>Example records\<close>

text \<open>
  The records of the scenario of the specification (a nitrogen with no altloc and one
  alpha carbon for each of the altlocs A and B), and a hydrazinium ion with the bonds a
  connectivity inference finds for it: the first nitrogen has four neighbours, the second
  has three.
\<close>

definition rec_N :: AtomField where
  "rec_N = \<lparr>atomname = ''N'', altloc = '''', resname = ''ALA'', chain_id = ''A'', resnum = 1,
     icode = '''', x_coord = 0, y_coord = 0, z_coord = 0, atomic_nr = 7\<rparr>"

definition rec_CA_A :: AtomField where
  "rec_CA_A = \<lparr>atomname = ''CA'', altloc = ''A'', resname = ''ALA'', chain_id = ''A'', resnum = 1,
     icode = '''', x_coord = 1.5, y_coord = 0, z_coord = 0, atomic_nr = 6\<rparr>"

definition rec_CA_B :: AtomField where
  "rec_CA_B = \<lparr>atomname = ''CA'', altloc = ''B'', resname = ''ALA'', chain_id = ''A'', resnum = 1,
     icode = '''', x_coord = 0, y_coord = 1.5, z_coord = 0, atomic_nr = 6\<rparr>"

definition example_record :: "string \<Rightarrow> int \<Rightarrow> real \<Rightarrow> real \<Rightarrow> real \<Rightarrow> AtomField" where
  "example_record name nr x y z =
     \<lparr>atomname = name, altloc = '''', resname = ''UNL'', chain_id = ''A'', resnum = 1,
      icode = '''', x_coord = x, y_coord = y, z_coord = z, atomic_nr = nr\<rparr>"

definition hydrazinium :: "AtomField list" where
  "hydrazinium =
     [example_record ''N1'' 7 0 0 0, example_record ''N2'' 7 1.45 0 0,
      example_record ''H1'' 1 (-0.35) 0.95 0, example_record ''H2'' 1 (-0.35) (-0.48) 0.82,
      example_record ''H3'' 1 (-0.35) (-0.48) (-0.82), example_record ''H4'' 1 1.8 0.48 0.82,
      example_record ''H5'' 1 1.8 0.48 (-0.82)]"

definition hydrazinium_bonds :: "Mol \<Rightarrow> Mol option" where
  "hydrazinium_bonds m = Some (m\<lparr>bonds := [(0, 1), (0, 2), (0, 3), (0, 4), (1, 5), (1, 6)]\<rparr>)"

section \<open>AtomField construction\<close>

lemma normalize_element_long:
  "1 < length element \<Longrightarrow>
     normalize_element element = [upper_char (element ! 0), lower_char (element ! 1)]"
  by (simp add: normalize_element_def)

lemma normalize_element_take:
  "1 < length element \<Longrightarrow> normalize_element (take 2 element) = normalize_element element"
  by (simp add: normalize_element_def)

text \<open>
  C9. When the periodic table does not know the normalized element symbol, the constructor
  ends with the table's exception and returns no record; the graph builder takes records
  only, so none of this symbol reaches it.
\<close>

theorem C9_unknown_element_fails:
  "GetAtomicNumber (normalize_element element) = None \<Longrightarrow>
     AtomField_init GetAtomicNumber an al rn ch rnum ic x y z element
       = Inl (ElementNotFound (normalize_element element))
     \<and> (\<forall>r. AtomField_init GetAtomicNumber an al rn ch rnum ic x y z element \<noteq> Inr r)"
  by (simp add: AtomField_init_def)

theorem C9_unknown_element_fails_witness:
  "map_of [(''C'', 6::int), (''N'', 7), (''Ca'', 20)] (normalize_element ''XX'') = None
   \<and> AtomField_init (map_of [(''C'', 6), (''N'', 7), (''Ca'', 20)])
        ''X1'' '''' ''UNL'' ''A'' 1 '''' 0 0 0 ''XX''
       = Inl (ElementNotFound ''Xx'')"
proof -
  have n: "normalize_element ''XX'' = ''Xx''"
    by code_simp
  have h: "map_of [(''C'', 6::int), (''N'', 7), (''Ca'', 20)] (normalize_element ''XX'') = None"
    by (simp add: n)
  show ?thesis
    using C9_unknown_element_fails [where element = "''XX''"
        and GetAtomicNumber = "map_of [(''C'', 6), (''N'', 7), (''Ca'', 20)]"
        and an = "''X1''" and al = "''''" and rn = "''UNL''"
        and ch = "''A''" and rnum = 1 and ic = "''''" and x = 0 and y = 0 and z = 0] h
    by (simp add: n)
qed

text \<open>
  The character codes \<open>upper_char\<close> and \<open>lower_char\<close> give, and their values on the
  letters, as \<open>str.upper\<close> and \<open>str.lower\<close> give them.
\<close>

lemma upper_char_code:
  "(of_char (upper_char c) :: nat) =
     (if 97 \<le> (of_char c :: nat) \<and> (of_char c :: nat) \<le> 122 then of_char c - 32 else of_char c)"
  by (auto simp add: upper_char_def Let_def)

lemma lower_char_code:
  "(of_char (lower_char c) :: nat) =
     (if 65 \<le> (of_char c :: nat) \<and> (of_char c :: nat) \<le> 90 then of_char c + 32 else of_char c)"
  by (auto simp add: lower_char_def Let_def)

lemma upper_char_letters:
  "map upper_char ''abcdefghijklmnopqrstuvwxyz'' = ''ABCDEFGHIJKLMNOPQRSTUVWXYZ''"
  "map upper_char ''ABCDEFGHIJKLMNOPQRSTUVWXYZ'' = ''ABCDEFGHIJKLMNOPQRSTUVWXYZ''"
  by code_simp+

lemma lower_char_letters:
  "map lower_char ''ABCDEFGHIJKLMNOPQRSTUVWXYZ'' = ''abcdefghijklmnopqrstuvwxyz''"
  "map lower_char ''abcdefghijklmnopqrstuvwxyz'' = ''abcdefghijklmnopqrstuvwxyz''"
  by code_simp+

text \<open>
  C10. For an ASCII element symbol of more than two characters, the symbol looked up is
  the first character in upper case (a letter a-z moved to A-Z, any other character as it
  is) followed by the second in lower case (a letter A-Z moved to a-z, any other character
  as it is). The rest is not used: the constructor gives what it gives on the
  two-character prefix, and it succeeds when the table knows that symbol.
\<close>

theorem C10_long_symbol_truncated:
  "2 < length element \<Longrightarrow> \<forall>c\<in>set element. (of_char c :: nat) < 128 \<Longrightarrow>
     normalize_element element = [upper_char (element ! 0), lower_char (element ! 1)]
     \<and> (of_char (upper_char (element ! 0)) :: nat) =
         (if 97 \<le> (of_char (element ! 0) :: nat) \<and> (of_char (element ! 0) :: nat) \<le> 122
          then of_char (element ! 0) - 32 else of_char (element ! 0))
     \<and> (of_char (lower_char (element ! 1)) :: nat) =
         (if 65 \<le> (of_char (element ! 1) :: nat) \<and> (of_char (element ! 1) :: nat) \<le> 90
          then of_char (element ! 1) + 32 else of_char (element ! 1))
     \<and> AtomField_init GetAtomicNumber an al rn ch rnum ic x y z element
         = AtomField_init GetAtomicNumber an al rn ch rnum ic x y z (take 2 element)
     \<and> (GetAtomicNumber [upper_char (element ! 0), lower_char (element ! 1)] = Some n \<longrightarrow>
          AtomField_init GetAtomicNumber an al rn ch rnum ic x y z element
            = Inr \<lparr>atomname = an, altloc = al, resname = rn, chain_id = ch, resnum = rnum,
                   icode = ic, x_coord = x, y_coord = y, z_coord = z, atomic_nr = n\<rparr>)"
  by (simp only: upper_char_code lower_char_code)
     (simp add: AtomField_init_def normalize_element_long normalize_element_take)

theorem C10_long_symbol_truncated_witness:
  "2 < length ''cARBON''
   \<and> normalize_element ''cARBON'' = ''Ca''
   \<and> AtomField_init (map_of [(''C'', 6), (''N'', 7), (''Ca'', 20)])
        ''C1'' '''' ''UNL'' ''A'' 1 '''' 0 0 0 ''cARBON''
       = Inr \<lparr>atomname = ''C1'', altloc = '''', resname = ''UNL'', chain_id = ''A'', resnum = 1,
              icode = '''', x_coord = 0, y_coord = 0, z_coord = 0, atomic_nr = 20\<rparr>"
proof -
  have l: "2 < length ''cARBON''" by simp
  have asc: "\<forall>c\<in>set ''cARBON''. (of_char c :: nat) < 128" by simp
  have u: "upper_char CHR ''c'' = CHR ''C''" "lower_char CHR ''A'' = CHR ''a''"
    by code_simp+
  note t = C10_long_symbol_truncated [where element = "''cARBON''"
        and GetAtomicNumber = "map_of [(''C'', 6), (''N'', 7), (''Ca'', 20)]"
        and an = "''C1''" and al = "''''" and rn = "''UNL''" and ch = "''A''" and rnum = 1
        and ic = "''''" and x = 0 and y = 0 and z = 0 and n = 20, OF l asc]
  have a: "normalize_element ''cARBON'' = ''Ca''"
    using t [THEN conjunct1] by (simp add: u)
  have b: "AtomField_init (map_of [(''C'', 6), (''N'', 7), (''Ca'', 20)])
        ''C1'' '''' ''UNL'' ''A'' 1 '''' 0 0 0 ''cARBON''
       = Inr \<lparr>atomname = ''C1'', altloc = '''', resname = ''UNL'', chain_id = ''A'', resnum = 1,
              icode = '''', x_coord = 0, y_coord = 0, z_coord = 0, atomic_nr = 20\<rparr>"
    using t [THEN conjunct2, THEN conjunct2, THEN conjunct2, THEN conjunct2] by (simp add: u)
  show ?thesis
    using l a b by blast
qed

section \<open>The graph builder\<close>

lemmas rec_defs = rec_N_def rec_CA_A_def rec_CA_B_def

lemma build_loop_atoms:
  "fst (build_loop w (enumerate n xs) (as, ps, idx)) =
     as @ map rdkit_atom_of (filter (\<lambda>a. \<not> skipped w a) xs)"
  by (induction xs arbitrary: n as ps idx) (simp_all)

lemma build_loop_positions:
  "fst (snd (build_loop w (enumerate n xs) (as, ps, idx))) =
     ps @ map position_of (filter (\<lambda>a. \<not> skipped w a) xs)"
  by (induction xs arbitrary: n as ps idx) (simp_all)

lemma build_loop_idx:
  "snd (snd (build_loop w (enumerate n xs) (as, ps, idx))) i =
     (if n \<le> i \<and> i < n + length xs \<and> \<not> skipped w (xs ! (i - n))
      then Some (length as + length (filter (\<lambda>a. \<not> skipped w a) (take (i - n) xs)))
      else idx i)"
proof (induction xs arbitrary: n as ps idx)
  case Nil
  then show ?case by auto
next
  case (Cons a xs)
  have d: "n < i \<Longrightarrow> i - n = Suc (i - Suc n)"
    by simp
  show ?case
    by (cases "n < i") (auto simp add: Cons.IH d)
qed

lemma set_positions_prefix:
  "length c = k + length ps \<Longrightarrow> set_positions (enumerate k ps) c = take k c @ ps"
proof (induction ps arbitrary: k c)
  case Nil
  then show ?case by simp
next
  case (Cons p ps)
  from Cons.prems have lt: "k < length c" by simp
  have "set_positions (enumerate k (p # ps)) c = set_positions (enumerate (Suc k) ps) (c[k := p])"
    using lt by (simp add: SetAtomPosition_def)
  also have "\<dots> = take (Suc k) (c[k := p]) @ ps"
    using Cons.prems by (intro Cons.IH) simp
  also have "\<dots> = take k c @ p # ps"
    using lt by (simp add: take_Suc_conv_app_nth)
  finally show ?case .
qed

lemma set_positions_all:
  "set_positions (enumerate 0 ps) (replicate (length ps) (0, 0, 0)) = ps"
  using set_positions_prefix [of "replicate (length ps) (0, 0, 0)" 0 ps] by simp

lemma build_rdkit_mol_for_altloc_eq:
  "build_rdkit_mol_for_altloc xs w =
     (\<lparr>atoms = map rdkit_atom_of (filter (\<lambda>a. \<not> skipped w a) xs), bonds = [],
       conformers = [map position_of (filter (\<lambda>a. \<not> skipped w a) xs)]\<rparr>,
      snd (snd (build_loop w (enumerate 0 xs) ([], [], Map.empty))))"
proof -
  obtain as ps idx where r: "build_loop w (enumerate 0 xs) ([], [], Map.empty) = (as, ps, idx)"
    by (cases "build_loop w (enumerate 0 xs) ([], [], Map.empty)") auto
  have a: "as = map rdkit_atom_of (filter (\<lambda>a. \<not> skipped w a) xs)"
    using build_loop_atoms [of w 0 xs "[]" "[]" Map.empty] r by simp
  have p: "ps = map position_of (filter (\<lambda>a. \<not> skipped w a) xs)"
    using build_loop_positions [of w 0 xs "[]" "[]" Map.empty] r by simp
  have l: "length as = length ps"
    by (simp add: a p)
  show ?thesis
    by (simp add: build_rdkit_mol_for_altloc_def r l set_positions_all) (simp add: a p)
qed

lemma idx_to_rdkit_lookup:
  "snd (build_rdkit_mol_for_altloc xs w) i =
     (if i < length xs \<and> \<not> skipped w (xs ! i)
      then Some (length (filter (\<lambda>a. \<not> skipped w a) (take i xs)))
      else None)"
  using build_loop_idx [of w 0 xs "[]" "[]" Map.empty i]
  by (simp add: build_rdkit_mol_for_altloc_eq)

lemma filter_take_nth:
  "i < length xs \<Longrightarrow> P (xs ! i) \<Longrightarrow>
     filter P xs ! length (filter P (take i xs)) = xs ! i
     \<and> length (filter P (take i xs)) < length (filter P xs)"
proof -
  assume i: "i < length xs" and p: "P (xs ! i)"
  have "xs = take i xs @ xs ! i # drop (Suc i) xs"
    using i by (rule id_take_nth_drop)
  then have "filter P xs = filter P (take i xs) @ xs ! i # filter P (drop (Suc i) xs)"
    using p by (metis filter.simps(2) filter_append)
  then show ?thesis
    by (simp add: nth_append)
qed

lemma filter_take_strict:
  "i < j \<Longrightarrow> j \<le> length xs \<Longrightarrow> P (xs ! i) \<Longrightarrow>
     length (filter P (take i xs)) < length (filter P (take j xs))"
proof -
  assume ij: "i < j" and j: "j \<le> length xs" and p: "P (xs ! i)"
  have "i < length (take j xs)" using ij j by simp
  moreover have "P (take j xs ! i)" using ij p by simp
  ultimately have "length (filter P (take i (take j xs))) < length (filter P (take j xs))"
    using filter_take_nth [of i "take j xs" P] by blast
  then show ?thesis using ij by (simp add: min_def)
qed

text \<open>
  C5 (amended). With a \<open>wanted_altloc\<close>, the molecule has, in the order of the input, an
  atom and a position for exactly the records whose altloc is empty or equals it. With no
  \<open>wanted_altloc\<close>, the molecule has an atom and a position for every record, whatever
  its altloc. The number of atoms is the number of records kept.
\<close>

theorem C5_graph_builder_contents:
  "atoms (fst (build_rdkit_mol_for_altloc xs (Some w)))
     = map rdkit_atom_of (filter (\<lambda>a. altloc a = [] \<or> altloc a = w) xs)
   \<and> conformers (fst (build_rdkit_mol_for_altloc xs (Some w)))
     = [map position_of (filter (\<lambda>a. altloc a = [] \<or> altloc a = w) xs)]
   \<and> length (atoms (fst (build_rdkit_mol_for_altloc xs (Some w))))
     = length (filter (\<lambda>a. altloc a = [] \<or> altloc a = w) xs)
   \<and> atoms (fst (build_rdkit_mol_for_altloc xs None)) = map rdkit_atom_of xs
   \<and> conformers (fst (build_rdkit_mol_for_altloc xs None)) = [map position_of xs]
   \<and> length (atoms (fst (build_rdkit_mol_for_altloc xs None))) = length xs"
  by (simp add: build_rdkit_mol_for_altloc_eq skipped_def)

text \<open>The scenario: the graph for altloc A has the nitrogen and the alpha carbon of A.\<close>

theorem C5_graph_builder_contents_witness:
  "map Name (map PDBResidueInfo
      (atoms (fst (build_rdkit_mol_for_altloc [rec_N, rec_CA_A, rec_CA_B] (Some ''A'')))))
     = [''N'', ''CA'']
   \<and> conformers (fst (build_rdkit_mol_for_altloc [rec_N, rec_CA_A, rec_CA_B] (Some ''A'')))
     = [[(0, 0, 0), (1.5, 0, 0)]]
   \<and> length (atoms (fst (build_rdkit_mol_for_altloc [rec_N, rec_CA_A, rec_CA_B] (Some ''A'')))) = 2"
  using C5_graph_builder_contents [of "[rec_N, rec_CA_A, rec_CA_B]" "''A''"]
  by (simp add: rec_defs rdkit_atom_of_def position_of_def)

text \<open>
  C5 as stated fails: with no \<open>wanted_altloc\<close> a record whose altloc is A is in the
  molecule, although no record of the input has an empty altloc.
\<close>

theorem C5_no_filter_keeps_altloc_records:
  "atoms (fst (build_rdkit_mol_for_altloc [rec_CA_A] None)) = [rdkit_atom_of rec_CA_A]
   \<and> filter (\<lambda>a. altloc a = []) [rec_CA_A] = []"
  by (simp add: build_rdkit_mol_for_altloc_def skipped_def rec_CA_A_def)

text \<open>
  C8. The index map of the graph builder is injective on its keys, and a key \<open>i\<close> mapped
  to \<open>j\<close> is a position of the input whose coordinates are the position \<open>j\<close> of the
  conformer (and whose atom is atom \<open>j\<close> of the molecule).
\<close>

theorem C8_index_map:
  "build_rdkit_mol_for_altloc xs w = (mol, idx_to_rdkit) \<Longrightarrow>
     inj_on idx_to_rdkit (dom idx_to_rdkit)
     \<and> (\<exists>c. conformers mol = [c] \<and> length c = length (atoms mol)
          \<and> (\<forall>i j. idx_to_rdkit i = Some j \<longrightarrow>
                i < length xs \<and> j < length c
                \<and> c ! j = (x_coord (xs ! i), y_coord (xs ! i), z_coord (xs ! i))
                \<and> atoms mol ! j = rdkit_atom_of (xs ! i)))"
proof -
  assume b: "build_rdkit_mol_for_altloc xs w = (mol, idx_to_rdkit)"
  let ?P = "\<lambda>a. \<not> skipped w a"
  have m: "mol = \<lparr>atoms = map rdkit_atom_of (filter ?P xs), bonds = [],
                  conformers = [map position_of (filter ?P xs)]\<rparr>"
    using b by (simp add: build_rdkit_mol_for_altloc_eq)
  have look: "idx_to_rdkit i =
      (if i < length xs \<and> ?P (xs ! i) then Some (length (filter ?P (take i xs))) else None)" for i
    using idx_to_rdkit_lookup [of xs w i] b by simp
  have inj: "inj_on idx_to_rdkit (dom idx_to_rdkit)"
  proof (rule inj_onI)
    fix i j
    assume i: "i \<in> dom idx_to_rdkit" and j: "j \<in> dom idx_to_rdkit"
      and e: "idx_to_rdkit i = idx_to_rdkit j"
    from i have ii: "i < length xs" "?P (xs ! i)"
      by (auto simp add: look split: if_splits)
    from j have jj: "j < length xs" "?P (xs ! j)"
      by (auto simp add: look split: if_splits)
    from e ii jj have l: "length (filter ?P (take i xs)) = length (filter ?P (take j xs))"
      by (simp add: look)
    show "i = j"
    proof (rule ccontr)
      assume "i \<noteq> j"
      then consider "i < j" | "j < i" by linarith
      then show False
      proof cases
        case 1
        then show False
          using filter_take_strict [of i j xs ?P] ii jj l by simp
      next
        case 2
        then show False
          using filter_take_strict [of j i xs ?P] ii jj l by simp
      qed
    qed
  qed
  let ?c = "map position_of (filter ?P xs)"
  have cm: "conformers mol = [?c]" and len: "length ?c = length (atoms mol)"
    by (simp_all add: m)
  have pos: "i < length xs \<and> j < length ?c
      \<and> ?c ! j = (x_coord (xs ! i), y_coord (xs ! i), z_coord (xs ! i))
      \<and> atoms mol ! j = rdkit_atom_of (xs ! i)"
    if s: "idx_to_rdkit i = Some j" for i j
  proof -
    from s have ii: "i < length xs" "?P (xs ! i)" and jj: "j = length (filter ?P (take i xs))"
      by (auto simp add: look split: if_splits)
    from filter_take_nth [of i xs ?P] ii jj
    have "filter ?P xs ! j = xs ! i" "j < length (filter ?P xs)"
      by simp_all
    then show ?thesis
      using ii by (simp add: m position_of_def)
  qed
  show ?thesis
    using inj cm len pos by blast
qed

theorem C8_index_map_witness:
  "snd (build_rdkit_mol_for_altloc [rec_N, rec_CA_A, rec_CA_B] (Some ''B'')) 0 = Some 0
   \<and> snd (build_rdkit_mol_for_altloc [rec_N, rec_CA_A, rec_CA_B] (Some ''B'')) 1 = None
   \<and> snd (build_rdkit_mol_for_altloc [rec_N, rec_CA_A, rec_CA_B] (Some ''B'')) 2 = Some 1
   \<and> inj_on (snd (build_rdkit_mol_for_altloc [rec_N, rec_CA_A, rec_CA_B] (Some ''B'')))
        (dom (snd (build_rdkit_mol_for_altloc [rec_N, rec_CA_A, rec_CA_B] (Some ''B''))))
   \<and> conformers (fst (build_rdkit_mol_for_altloc [rec_N, rec_CA_A, rec_CA_B] (Some ''B'')))
        = [[(0, 0, 0), (0, 1.5, 0)]]"
proof -
  let ?r = "build_rdkit_mol_for_altloc [rec_N, rec_CA_A, rec_CA_B] (Some ''B'')"
  have e: "?r = (fst ?r, snd ?r)" by simp
  have i: "snd ?r 0 = Some 0" "snd ?r 1 = None" "snd ?r 2 = Some 1"
    by (simp_all add: build_rdkit_mol_for_altloc_def skipped_def rec_defs enumerate_eq_zip upt_rec)
  have c: "conformers (fst ?r) = [[(0, 0, 0), (0, 1.5, 0)]]"
    by (simp add: build_rdkit_mol_for_altloc_def skipped_def rec_defs enumerate_eq_zip upt_rec
        position_of_def SetAtomPosition_def)
  show ?thesis
    using C8_index_map [OF e] i c by simp
qed

section \<open>The partition\<close>

lemma fold_map_upd:
  "fold (\<lambda>k d. d(k \<mapsto> f k)) keys m = (\<lambda>k. if k \<in> set keys then Some (f k) else m k)"
  by (induction keys arbitrary: m) (auto simp add: fun_eq_iff)

lemma mols_dict_lookup:
  "build_one_rdkit_mol_per_altloc xs k =
     (if \<forall>a\<in>set xs. altloc a = []
      then (if k = None then Some (build_rdkit_mol_for_altloc xs None) else None)
      else (case k of
              None \<Rightarrow> None
            | Some t \<Rightarrow> if t \<noteq> [] \<and> t \<in> altloc ` set xs
                       then Some (build_rdkit_mol_for_altloc xs (Some t)) else None))"
proof (cases "\<forall>a\<in>set xs. altloc a = []")
  case True
  then have "filter (\<lambda>atom. altloc atom \<noteq> []) xs = []"
    by (simp add: filter_empty_conv)
  then show ?thesis
    using True by (simp add: build_one_rdkit_mol_per_altloc_def)
next
  case False
  then have "filter (\<lambda>atom. altloc atom \<noteq> []) xs \<noteq> []"
    by (simp add: filter_empty_conv)
  then show ?thesis
    using False
    by (auto simp add: build_one_rdkit_mol_per_altloc_def fold_map_upd split: option.splits)
qed

lemma has_altloc_iff:
  "build_one_rdkit_mol_per_altloc xs None = None \<longleftrightarrow> (\<exists>a\<in>set xs. altloc a \<noteq> [])"
  by (simp add: mols_dict_lookup)

lemma mols_dict_key_nonempty:
  "build_one_rdkit_mol_per_altloc xs (Some t) \<noteq> None \<Longrightarrow> t \<noteq> []"
  by (auto simp add: mols_dict_lookup split: if_splits)

text \<open>
  C6. When no record has a non-empty altloc, the dictionary has the single key \<open>None\<close>,
  with the molecule built with no filter. Otherwise its keys are exactly the distinct
  non-empty altlocs of the records, \<open>None\<close> is not a key, and each key has the molecule
  built for it.
\<close>

theorem C6_partition_keys:
  "((\<forall>a\<in>set xs. altloc a = []) \<longrightarrow>
      dom (build_one_rdkit_mol_per_altloc xs) = {None}
      \<and> build_one_rdkit_mol_per_altloc xs None = Some (build_rdkit_mol_for_altloc xs None))
   \<and> ((\<exists>a\<in>set xs. altloc a \<noteq> []) \<longrightarrow>
      dom (build_one_rdkit_mol_per_altloc xs) = Some ` {t \<in> altloc ` set xs. t \<noteq> []}
      \<and> None \<notin> dom (build_one_rdkit_mol_per_altloc xs)
      \<and> (\<forall>t. Some t \<in> dom (build_one_rdkit_mol_per_altloc xs) \<longrightarrow>
            build_one_rdkit_mol_per_altloc xs (Some t)
              = Some (build_rdkit_mol_for_altloc xs (Some t))))"
proof (cases "\<forall>a\<in>set xs. altloc a = []")
  case True
  then have "dom (build_one_rdkit_mol_per_altloc xs) = {None}"
    by (auto simp add: dom_def mols_dict_lookup)
  then show ?thesis
    using True by (simp add: mols_dict_lookup)
next
  case False
  have "dom (build_one_rdkit_mol_per_altloc xs) = Some ` {t \<in> altloc ` set xs. t \<noteq> []}"
  proof (rule set_eqI)
    fix k
    show "k \<in> dom (build_one_rdkit_mol_per_altloc xs)
            \<longleftrightarrow> k \<in> Some ` {t \<in> altloc ` set xs. t \<noteq> []}"
      using False by (cases k) (auto simp add: dom_def mols_dict_lookup)
  qed
  then show ?thesis
    using False by (auto simp add: mols_dict_lookup)
qed

theorem C6_partition_keys_witness:
  "altloc rec_N = []
   \<and> dom (build_one_rdkit_mol_per_altloc [rec_N]) = {None}
   \<and> altloc rec_CA_A = ''A'' \<and> altloc rec_CA_B = ''B''
   \<and> dom (build_one_rdkit_mol_per_altloc [rec_N, rec_CA_A, rec_CA_B]) = {Some ''A'', Some ''B''}"
proof -
  have a: "\<forall>a\<in>set [rec_N]. altloc a = []"
    by (simp add: rec_defs)
  have b: "\<exists>a\<in>set [rec_N, rec_CA_A, rec_CA_B]. altloc a \<noteq> []"
    by (simp add: rec_defs)
  have s: "Some ` {t \<in> altloc ` set [rec_N, rec_CA_A, rec_CA_B]. t \<noteq> []} = {Some ''A'', Some ''B''}"
    by (auto simp add: rec_defs)
  have t: "altloc rec_N = []" "altloc rec_CA_A = ''A''" "altloc rec_CA_B = ''B''"
    by (simp_all add: rec_defs)
  have d1: "dom (build_one_rdkit_mol_per_altloc [rec_N]) = {None}"
    using C6_partition_keys [of "[rec_N]"] a by blast
  have d2: "dom (build_one_rdkit_mol_per_altloc [rec_N, rec_CA_A, rec_CA_B])
              = {Some ''A'', Some ''B''}"
    using C6_partition_keys [of "[rec_N, rec_CA_A, rec_CA_B]"] b s by simp
  show ?thesis
    using t d1 d2 by blast
qed

section \<open>The resolver\<close>

lemma programming_bug_iff:
  "aux_altloc_mol_build dc san xs requested_altloc allowed_altloc = Inl ProgrammingBug
     \<longleftrightarrow> (\<forall>a\<in>set xs. altloc a = []) \<and> requested_altloc = Some []"
proof (cases "\<forall>a\<in>set xs. altloc a = []")
  case True
  then show ?thesis
    by (cases requested_altloc; cases allowed_altloc)
       (auto simp add: aux_altloc_mol_build_def Let_def truthy_def mols_dict_lookup
          split: option.splits prod.splits)
next
  case False
  then show ?thesis
    by (cases requested_altloc; cases allowed_altloc)
       (auto simp add: aux_altloc_mol_build_def Let_def truthy_def mols_dict_lookup
          split: option.splits prod.splits)
qed

text \<open>
  C1. The last branch of the decision chain, which raises the programming-bug error, is
  reached: for a record list with no altloc and the empty string as \<open>requested_altloc\<close>.
  By \<open>programming_bug_iff\<close> these are the only inputs that reach it.
\<close>

theorem C1_rule7_reached:
  "aux_altloc_mol_build dc san [rec_N] (Some '''') None = Inl ProgrammingBug"
  by (simp add: programming_bug_iff rec_defs)

text \<open>
  C2. When \<open>None\<close> is not a key of the dictionary and both \<open>requested_altloc\<close> and
  \<open>allowed_altloc\<close> are \<open>None\<close>, the result has no molecule and no index map,
  \<open>missed_altloc\<close> false and \<open>needed_altloc\<close> true.
\<close>

theorem C2_needed_altloc:
  "None \<notin> dom (build_one_rdkit_mol_per_altloc xs) \<Longrightarrow>
     aux_altloc_mol_build dc san xs None None = Inr (None, None, False, True)"
  by (auto simp add: aux_altloc_mol_build_def Let_def dom_def)

theorem C2_needed_altloc_witness:
  "None \<notin> dom (build_one_rdkit_mol_per_altloc [rec_N, rec_CA_A, rec_CA_B])
   \<and> aux_altloc_mol_build Some Some [rec_N, rec_CA_A, rec_CA_B] None None
       = Inr (None, None, False, True)"
proof -
  have "build_one_rdkit_mol_per_altloc [rec_N, rec_CA_A, rec_CA_B] None = None"
    by (simp add: has_altloc_iff rec_defs)
  then have h: "None \<notin> dom (build_one_rdkit_mol_per_altloc [rec_N, rec_CA_A, rec_CA_B])"
    by (simp add: domIff)
  show ?thesis
    using C2_needed_altloc [OF h, of Some Some] h by simp
qed

text \<open>
  C3 (amended). For a non-empty \<open>requested_altloc\<close> that is not a key of the dictionary,
  the result has no molecule, \<open>missed_altloc\<close> true and \<open>needed_altloc\<close> false,
  whatever \<open>allowed_altloc\<close> is.
\<close>

theorem C3_missed_altloc:
  "r \<noteq> [] \<Longrightarrow> Some r \<notin> dom (build_one_rdkit_mol_per_altloc xs) \<Longrightarrow>
     aux_altloc_mol_build dc san xs (Some r) allowed_altloc = Inr (None, None, True, False)"
  by (auto simp add: aux_altloc_mol_build_def Let_def dom_def truthy_def)

theorem C3_missed_altloc_witness:
  "''C'' \<noteq> [] \<and> Some ''C'' \<notin> dom (build_one_rdkit_mol_per_altloc [rec_N, rec_CA_A, rec_CA_B])
   \<and> aux_altloc_mol_build Some Some [rec_N, rec_CA_A, rec_CA_B] (Some ''C'') (Some ''A'')
       = Inr (None, None, True, False)"
proof -
  have h: "Some ''C'' \<notin> dom (build_one_rdkit_mol_per_altloc [rec_N, rec_CA_A, rec_CA_B])"
    by (simp add: dom_def mols_dict_lookup rec_defs)
  have n: "''C'' \<noteq> []" by simp
  show ?thesis
    using C3_missed_altloc [OF n h, of Some Some "Some ''A''"] h by simp
qed

text \<open>
  C3 as stated fails for the empty string: it is a \<open>requested_altloc\<close> that is no key of
  the dictionary, and the result has \<open>missed_altloc\<close> false. With no \<open>allowed_altloc\<close>
  the result has \<open>needed_altloc\<close> true; with the \<open>allowed_altloc\<close> A it has the
  molecule of A.
\<close>

theorem C3_empty_request_not_missed:
  "Some '''' \<notin> dom (build_one_rdkit_mol_per_altloc [rec_N, rec_CA_A, rec_CA_B])
   \<and> aux_altloc_mol_build Some Some [rec_N, rec_CA_A, rec_CA_B] (Some '''') None
       = Inr (None, None, False, True)
   \<and> aux_altloc_mol_build Some Some [rec_N, rec_CA_A, rec_CA_B] (Some '''') (Some ''A'')
       = Inr (Some (charge_loop
                (fst (build_rdkit_mol_for_altloc [rec_N, rec_CA_A, rec_CA_B] (Some ''A'')))),
              Some (snd (build_rdkit_mol_for_altloc [rec_N, rec_CA_A, rec_CA_B] (Some ''A''))),
              False, False)"
proof -
  let ?xs = "[rec_N, rec_CA_A, rec_CA_B]"
  have e: "build_one_rdkit_mol_per_altloc ?xs (Some '''') = None"
    by (simp add: mols_dict_lookup rec_defs)
  then have h: "Some '''' \<notin> dom (build_one_rdkit_mol_per_altloc ?xs)"
    by (simp add: domIff)
  have a: "build_one_rdkit_mol_per_altloc ?xs None = None"
    by (simp add: has_altloc_iff rec_defs)
  have k: "build_one_rdkit_mol_per_altloc ?xs (Some ''A'')
             = Some (build_rdkit_mol_for_altloc ?xs (Some ''A''))"
    by (simp add: mols_dict_lookup rec_defs)
  have r1: "aux_altloc_mol_build Some Some ?xs (Some '''') None = Inr (None, None, False, True)"
    by (simp add: aux_altloc_mol_build_def Let_def a truthy_def)
  have r2: "aux_altloc_mol_build Some Some ?xs (Some '''') (Some ''A'')
       = Inr (Some (charge_loop (fst (build_rdkit_mol_for_altloc ?xs (Some ''A'')))),
              Some (snd (build_rdkit_mol_for_altloc ?xs (Some ''A''))), False, False)"
    by (simp add: aux_altloc_mol_build_def Let_def a k truthy_def split: prod.splits)
  show ?thesis
    using h r1 r2 by blast
qed

text \<open>
  C4. In every result the function returns: with no molecule, exactly one of
  \<open>missed_altloc\<close> and \<open>needed_altloc\<close> is true (and there is no index map); with a
  molecule, both are false.
\<close>

theorem C4_flags:
  "aux_altloc_mol_build dc san xs requested_altloc allowed_altloc
       = Inr (pdbmol, idx_to_rdkit, missed_altloc, needed_altloc) \<Longrightarrow>
     (pdbmol = None \<longrightarrow> idx_to_rdkit = None \<and> (missed_altloc \<noteq> needed_altloc))
     \<and> (pdbmol \<noteq> None \<longrightarrow> idx_to_rdkit \<noteq> None \<and> \<not> missed_altloc \<and> \<not> needed_altloc)"
  by (auto simp add: aux_altloc_mol_build_def Let_def split: if_splits option.splits prod.splits)
     metis+

theorem C4_flags_witness:
  "aux_altloc_mol_build Some Some [rec_N] None None
     = Inr (Some (charge_loop (fst (build_rdkit_mol_for_altloc [rec_N] None))),
            Some (snd (build_rdkit_mol_for_altloc [rec_N] None)), False, False)
   \<and> aux_altloc_mol_build Some Some [rec_N, rec_CA_A, rec_CA_B] None (Some ''C'')
     = Inr (None, None, False, True)"
proof -
  have pd: "build_one_rdkit_mol_per_altloc [rec_N] k =
      (if k = None then Some (build_rdkit_mol_for_altloc [rec_N] None) else None)" for k
    by (simp add: mols_dict_lookup rec_defs)
  have r1: "aux_altloc_mol_build Some Some [rec_N] None None
     = Inr (Some (charge_loop (fst (build_rdkit_mol_for_altloc [rec_N] None))),
            Some (snd (build_rdkit_mol_for_altloc [rec_N] None)), False, False)"
    by (simp add: aux_altloc_mol_build_def Let_def pd truthy_def split: prod.splits)
  have r2: "aux_altloc_mol_build Some Some [rec_N, rec_CA_A, rec_CA_B] None (Some ''C'')
     = Inr (None, None, False, True)"
  proof -
    have a: "build_one_rdkit_mol_per_altloc [rec_N, rec_CA_A, rec_CA_B] None = None"
      by (simp add: has_altloc_iff rec_defs)
    have b: "build_one_rdkit_mol_per_altloc [rec_N, rec_CA_A, rec_CA_B] (Some ''C'') = None"
      by (simp add: mols_dict_lookup rec_defs)
    show ?thesis
      by (simp add: aux_altloc_mol_build_def Let_def a b truthy_def)
  qed
  show ?thesis
    using C4_flags [OF r1] C4_flags [OF r2] r1 r2 by blast
qed

section \<open>The nitrogen charge\<close>

lemma charge_step_frame:
  "bonds (charge_step i m) = bonds m"
  "conformers (charge_step i m) = conformers m"
  "length (atoms (charge_step i m)) = length (atoms m)"
  by (simp_all add: charge_step_def)

lemma GetNeighbors_bonds: "bonds m' = bonds m \<Longrightarrow> GetNeighbors m' i = GetNeighbors m i"
  by (simp add: GetNeighbors_def)

lemma charge_prefix:
  "k \<le> length (atoms m) \<Longrightarrow>
     bonds (fold charge_step [0..<k] m) = bonds m
     \<and> length (atoms (fold charge_step [0..<k] m)) = length (atoms m)
     \<and> (\<forall>i<length (atoms m). atoms (fold charge_step [0..<k] m) ! i =
          (if i < k \<and> AtomicNum (atoms m ! i) = 7 \<and> length (GetNeighbors m i) = 4
           then (atoms m ! i)\<lparr>FormalCharge := 1\<rparr> else atoms m ! i))"
proof (induction k)
  case 0
  then show ?case by simp
next
  case (Suc k)
  let ?m = "fold charge_step [0..<k] m"
  from Suc have ih: "bonds ?m = bonds m" "length (atoms ?m) = length (atoms m)"
    "\<And>i. i < length (atoms m) \<Longrightarrow> atoms ?m ! i =
          (if i < k \<and> AtomicNum (atoms m ! i) = 7 \<and> length (GetNeighbors m i) = 4
           then (atoms m ! i)\<lparr>FormalCharge := 1\<rparr> else atoms m ! i)"
    by simp_all
  from Suc.prems have k: "k < length (atoms m)" by simp
  have f: "fold charge_step [0..<Suc k] m = charge_step k ?m"
    by simp
  have n: "GetNeighbors ?m k = GetNeighbors m k"
    using ih(1) by (rule GetNeighbors_bonds)
  have a: "atoms ?m ! k = atoms m ! k"
    using ih(3) [OF k] by simp
  show ?case
    unfolding f
    using k ih by (auto simp add: charge_step_def n a nth_list_update less_Suc_eq)
qed

lemma charge_loop_frame:
  "bonds (charge_loop m) = bonds m" "length (atoms (charge_loop m)) = length (atoms m)"
  using charge_prefix [of "length (atoms m)" m] by (simp_all add: charge_loop_def)

lemma charge_loop_nth:
  "i < length (atoms m) \<Longrightarrow>
     atoms (charge_loop m) ! i =
       (if AtomicNum (atoms m ! i) = 7 \<and> length (GetNeighbors m i) = 4
        then (atoms m ! i)\<lparr>FormalCharge := 1\<rparr> else atoms m ! i)"
  using charge_prefix [of "length (atoms m)" m] by (simp add: charge_loop_def)

lemma mols_dict_charge_zero:
  "build_one_rdkit_mol_per_altloc xs k = Some (m0, i0) \<Longrightarrow> a \<in> set (atoms m0) \<Longrightarrow>
     FormalCharge a = 0"
  by (auto simp add: mols_dict_lookup build_rdkit_mol_for_altloc_eq rdkit_atom_of_def
        split: if_splits option.splits)

lemma aux_graph_origin:
  "aux_altloc_mol_build dc san xs requested_altloc allowed_altloc
       = Inr (Some mol, idx_to_rdkit, missed_altloc, needed_altloc) \<Longrightarrow>
     \<exists>k m0 i0 m1. build_one_rdkit_mol_per_altloc xs k = Some (m0, i0) \<and> dc m0 = Some m1
       \<and> san (charge_loop m1) = Some mol \<and> idx_to_rdkit = Some i0"
  by (auto simp add: aux_altloc_mol_build_def Let_def split: if_splits option.splits prod.splits)

text \<open>
  C7. Let connectivity inference keep the atoms of the molecule, and let sanitization keep
  their formal charges. Then in the molecule the function returns, an atom has formal
  charge 1 when it is a nitrogen with exactly four neighbours after connectivity
  inference, and formal charge 0 otherwise; so a nitrogen with three neighbours has 0.
\<close>

theorem C7_nitrogen_charge:
  assumes res: "aux_altloc_mol_build dc san xs requested_altloc allowed_altloc
                  = Inr (Some mol, idx_to_rdkit, missed_altloc, needed_altloc)"
    and keeps_atoms: "\<And>m m'. dc m = Some m' \<Longrightarrow> atoms m' = atoms m"
    and keeps_charges: "\<And>m m'. san m = Some m' \<Longrightarrow>
                map FormalCharge (atoms m') = map FormalCharge (atoms m)"
  shows "\<exists>k m0 i0 m1. build_one_rdkit_mol_per_altloc xs k = Some (m0, i0) \<and> dc m0 = Some m1
           \<and> san (charge_loop m1) = Some mol
           \<and> length (atoms mol) = length (atoms m1)
           \<and> (\<forall>i<length (atoms m1).
                 FormalCharge (atoms mol ! i) =
                   (if AtomicNum (atoms m1 ! i) = 7 \<and> length (GetNeighbors m1 i) = 4
                    then 1 else 0))"
proof -
  from aux_graph_origin [OF res] obtain k m0 i0 m1 where
    p: "build_one_rdkit_mol_per_altloc xs k = Some (m0, i0)" and d: "dc m0 = Some m1"
    and s: "san (charge_loop m1) = Some mol"
    by blast
  have a1: "atoms m1 = atoms m0"
    using d by (rule keeps_atoms)
  have fc: "map FormalCharge (atoms mol) = map FormalCharge (atoms (charge_loop m1))"
    using s by (rule keeps_charges)
  then have len: "length (atoms mol) = length (atoms m1)"
    using charge_loop_frame(2) [of m1] by (metis length_map)
  have ch: "FormalCharge (atoms mol ! i) =
      (if AtomicNum (atoms m1 ! i) = 7 \<and> length (GetNeighbors m1 i) = 4 then 1 else 0)"
    if i: "i < length (atoms m1)" for i
  proof -
    have z: "FormalCharge (atoms m1 ! i) = 0"
      using mols_dict_charge_zero [OF p, of "atoms m0 ! i"] i a1 by simp
    have "FormalCharge (atoms mol ! i) = map FormalCharge (atoms mol) ! i"
      using i len by simp
    also have "\<dots> = FormalCharge (atoms (charge_loop m1) ! i)"
      using i charge_loop_frame(2) [of m1] by (simp add: fc)
    also have "\<dots> = (if AtomicNum (atoms m1 ! i) = 7 \<and> length (GetNeighbors m1 i) = 4
                       then 1 else 0)"
      using i z by (simp add: charge_loop_nth)
    finally show ?thesis .
  qed
  show ?thesis
    using p d s len ch by blast
qed

theorem C7_nitrogen_charge_witness:
  "aux_altloc_mol_build hydrazinium_bonds Some hydrazinium None None
     = Inr (Some (charge_loop ((fst (build_rdkit_mol_for_altloc hydrazinium None))
                    \<lparr>bonds := [(0, 1), (0, 2), (0, 3), (0, 4), (1, 5), (1, 6)]\<rparr>)),
            Some (snd (build_rdkit_mol_for_altloc hydrazinium None)), False, False)
   \<and> FormalCharge (atoms (charge_loop ((fst (build_rdkit_mol_for_altloc hydrazinium None))
                    \<lparr>bonds := [(0, 1), (0, 2), (0, 3), (0, 4), (1, 5), (1, 6)]\<rparr>)) ! 0) = 1
   \<and> FormalCharge (atoms (charge_loop ((fst (build_rdkit_mol_for_altloc hydrazinium None))
                    \<lparr>bonds := [(0, 1), (0, 2), (0, 3), (0, 4), (1, 5), (1, 6)]\<rparr>)) ! 1) = 0"
proof -
  let ?b = "[(0, 1), (0, 2), (0, 3), (0, 4), (1, 5), (1, 6)] :: (nat \<times> nat) list"
  let ?m0 = "fst (build_rdkit_mol_for_altloc hydrazinium None)"
  let ?M = "charge_loop (?m0\<lparr>bonds := ?b\<rparr>)"
  have na: "\<forall>a\<in>set hydrazinium. altloc a = []"
    by (simp add: hydrazinium_def example_record_def)
  have pd: "build_one_rdkit_mol_per_altloc hydrazinium k =
      (if k = None then Some (build_rdkit_mol_for_altloc hydrazinium None) else None)" for k
    using na by (simp add: mols_dict_lookup)
  have res: "aux_altloc_mol_build hydrazinium_bonds Some hydrazinium None None
     = Inr (Some ?M, Some (snd (build_rdkit_mol_for_altloc hydrazinium None)), False, False)"
    by (simp add: aux_altloc_mol_build_def Let_def pd truthy_def hydrazinium_bonds_def
          split: prod.splits)
  have h1: "\<And>m m'. hydrazinium_bonds m = Some m' \<Longrightarrow> atoms m' = atoms m"
    by (auto simp add: hydrazinium_bonds_def)
  have h2: "\<And>m m'. Some m = Some m' \<Longrightarrow>
      map FormalCharge (atoms m') = map FormalCharge (atoms m)"
    by simp
  from C7_nitrogen_charge [OF res h1 h2] obtain k m0 i0 m1 where
    p: "build_one_rdkit_mol_per_altloc hydrazinium k = Some (m0, i0)"
    and d: "hydrazinium_bonds m0 = Some m1"
    and ch: "\<forall>i<length (atoms m1). FormalCharge (atoms ?M ! i) =
               (if AtomicNum (atoms m1 ! i) = 7 \<and> length (GetNeighbors m1 i) = 4 then 1 else 0)"
    by blast
  from p have m0: "m0 = ?m0"
    by (simp add: pd split: if_splits)
  from d have m1: "m1 = ?m0\<lparr>bonds := ?b\<rparr>"
    by (simp add: hydrazinium_bonds_def m0)
  have a: "atoms m1 = map rdkit_atom_of hydrazinium"
    by (simp add: m1 build_rdkit_mol_for_altloc_eq skipped_def)
  have n: "length (GetNeighbors m1 0) = 4" "length (GetNeighbors m1 1) = 3"
    by (simp_all add: m1 GetNeighbors_def)
  have z: "AtomicNum (atoms m1 ! 0) = 7" "AtomicNum (atoms m1 ! 1) = 7" "length (atoms m1) = 7"
    by (simp_all add: a hydrazinium_def example_record_def rdkit_atom_of_def)
  from ch z n have "FormalCharge (atoms ?M ! 0) = 1" "FormalCharge (atoms ?M ! 1) = 0"
    by auto
  then show ?thesis
    using res by simp
qed

end
